theory Spec2Isabelle
  imports Main "HOL-Library.Word"
begin

section \<open>The libc shim of c\_libax: srand, rand, abort\<close>

text \<open>
  The file \<^verbatim>\<open>ulib/c_libax/src/stdlib.c\<close> maps three libc entry points onto the
  runtime's \<^verbatim>\<open>ax_srand\<close>, \<^verbatim>\<open>ax_rand_u32\<close> and \<^verbatim>\<open>ax_panic\<close>:
  \<^verbatim>\<open>
  void srand(unsigned s)      { ax_srand(s); }
  int rand(void)              { return ax_rand_u32(); }
  _Noreturn void abort(void)  { ax_panic(); __builtin_unreachable(); }
  \<close>
  The embedding is a state-passing one: a C statement is a function from the process
  state to an outcome, and the three runtime entry points are parameters.
\<close>

subsection \<open>Machine integers\<close>

text \<open>
  \<^verbatim>\<open>unsigned\<close>, \<^verbatim>\<open>uint32_t\<close> and \<^verbatim>\<open>int\<close> are 32 bits wide on every target of the
  repository. All three are 32-bit words; the C type decides how the word is read:
  \<open>uint32_val\<close> for the unsigned types, \<open>int_val\<close> (two's complement) for \<^verbatim>\<open>int\<close>.
\<close>

type_synonym uint32_t = "32 word"
type_synonym c_unsigned = "32 word"
type_synonym c_int = "32 word"

definition uint32_val :: "uint32_t \<Rightarrow> int" where
  "uint32_val w = uint w"

definition int_val :: "c_int \<Rightarrow> int" where
  "int_val w = sint w"

text \<open>
  The implicit conversions of the source. \<^verbatim>\<open>ax_srand(s)\<close> passes an \<^verbatim>\<open>unsigned\<close> where a
  \<^verbatim>\<open>uint32_t\<close> is expected: the two types have the same width and signedness.
  \<^verbatim>\<open>return ax_rand_u32();\<close> converts a \<^verbatim>\<open>uint32_t\<close> to \<^verbatim>\<open>int\<close>: a value that \<^verbatim>\<open>int\<close>
  cannot represent is reduced modulo \<open>2 ^ 32\<close> (the compiler's documented choice), so
  the 32 bits are kept as they are.
\<close>

definition unsigned_to_uint32 :: "c_unsigned \<Rightarrow> uint32_t" where
  "unsigned_to_uint32 s = ucast s"

definition uint32_to_int :: "uint32_t \<Rightarrow> c_int" where
  "uint32_to_int r = word_of_int (uint32_val r)"

subsection \<open>Outcomes and statements\<close>

text \<open>
  A call either returns a value and a new state, or never returns, or runs into
  undefined behaviour.
\<close>

datatype ('a, 's) outcome = Returns 'a 's | Diverges | Undefined

type_synonym ('a, 's) stmt = "'s \<Rightarrow> ('a, 's) outcome"

fun returns_normally :: "('a, 's) outcome \<Rightarrow> bool" where
  "returns_normally (Returns v \<sigma>) = True"
| "returns_normally Diverges = False"
| "returns_normally Undefined = False"

fun returned_value :: "('a, 's) outcome \<Rightarrow> 'a option" where
  "returned_value (Returns v \<sigma>) = Some v"
| "returned_value Diverges = None"
| "returned_value Undefined = None"

fun final_state :: "('a, 's) outcome \<Rightarrow> 's option" where
  "final_state (Returns v \<sigma>) = Some \<sigma>"
| "final_state Diverges = None"
| "final_state Undefined = None"

text \<open>Sequencing: what follows a statement runs only when the statement returns.\<close>

definition then_stmt :: "('a, 's) stmt \<Rightarrow> ('a \<Rightarrow> ('b, 's) stmt) \<Rightarrow> ('b, 's) stmt" where
  "then_stmt m k \<sigma> =
     (case m \<sigma> of
        Returns v \<sigma>' \<Rightarrow> k v \<sigma>'
      | Diverges \<Rightarrow> Diverges
      | Undefined \<Rightarrow> Undefined)"

definition return_stmt :: "'a \<Rightarrow> ('a, 's) stmt" where
  "return_stmt v \<sigma> = Returns v \<sigma>"

text \<open>\<^verbatim>\<open>__builtin_unreachable()\<close>: reaching it is undefined behaviour.\<close>

definition builtin_unreachable :: "(unit, 's) stmt" where
  "builtin_unreachable \<sigma> = Undefined"

subsection \<open>The runtime\<close>

text \<open>
  Modelled from the spec: the header \<^verbatim>\<open>libax.h\<close> and the runtime behind it are not part
  of the sources. The three entry points are therefore the fields of a record, over
  any type \<open>'rt\<close> of process states, and the theorems hold for every runtime:
  \<^item> \<open>ax_srand\<close> takes the seed, changes the state and returns nothing;
  \<^item> \<open>ax_rand_u32\<close> returns an unsigned 32-bit value and a new state;
  \<^item> \<open>ax_panic\<close> is documented never to return: \<open>None\<close>. A runtime that breaks the
    contract returns with some state: \<open>Some\<close>.
  The seeding and generating entries cannot fail by contract, so they are total.
\<close>

record 'rt runtime =
  ax_srand :: "uint32_t \<Rightarrow> 'rt \<Rightarrow> 'rt"
  ax_rand_u32 :: "'rt \<Rightarrow> uint32_t \<times> 'rt"
  ax_panic :: "'rt \<Rightarrow> 'rt option"

text \<open>A call of an entry point, as a statement.\<close>

definition call_ax_srand :: "'rt runtime \<Rightarrow> uint32_t \<Rightarrow> (unit, 'rt) stmt" where
  "call_ax_srand R seed \<sigma> = Returns () (ax_srand R seed \<sigma>)"

definition call_ax_rand_u32 :: "'rt runtime \<Rightarrow> (uint32_t, 'rt) stmt" where
  "call_ax_rand_u32 R \<sigma> = (case ax_rand_u32 R \<sigma> of (r, \<sigma>') \<Rightarrow> Returns r \<sigma>')"

definition call_ax_panic :: "'rt runtime \<Rightarrow> (unit, 'rt) stmt" where
  "call_ax_panic R \<sigma> = (case ax_panic R \<sigma> of None \<Rightarrow> Diverges | Some \<sigma>' \<Rightarrow> Returns () \<sigma>')"

subsection \<open>The shim\<close>

text \<open>\<^verbatim>\<open>void srand(unsigned s) { ax_srand(s); }\<close>\<close>

definition srand :: "'rt runtime \<Rightarrow> c_unsigned \<Rightarrow> (unit, 'rt) stmt" where
  "srand R s = call_ax_srand R (unsigned_to_uint32 s)"

text \<open>\<^verbatim>\<open>int rand(void) { return ax_rand_u32(); }\<close>\<close>

definition rand :: "'rt runtime \<Rightarrow> (c_int, 'rt) stmt" where
  "rand R = then_stmt (call_ax_rand_u32 R) (\<lambda>r. return_stmt (uint32_to_int r))"

text \<open>\<^verbatim>\<open>_Noreturn void abort(void) { ax_panic(); __builtin_unreachable(); }\<close>\<close>

definition abort :: "'rt runtime \<Rightarrow> (unit, 'rt) stmt" where
  "abort R = then_stmt (call_ax_panic R) (\<lambda>_. builtin_unreachable)"

text \<open>
  The control flow of \<open>abort\<close> as program points: the call of \<^verbatim>\<open>ax_panic\<close> (line 18) and
  the marker \<^verbatim>\<open>__builtin_unreachable()\<close> (line 19). \<open>abort_reaches R \<sigma>\<^sub>0 pc \<sigma>\<close> holds
  when an execution of \<open>abort\<close> started in \<open>\<sigma>\<^sub>0\<close> arrives at \<open>pc\<close> in state \<open>\<sigma>\<close>.
\<close>

datatype abort_pc = At_ax_panic | At_builtin_unreachable

inductive abort_reaches :: "'rt runtime \<Rightarrow> 'rt \<Rightarrow> abort_pc \<Rightarrow> 'rt \<Rightarrow> bool"
  for R :: "'rt runtime" and \<sigma>\<^sub>0 :: 'rt where
  entry: "abort_reaches R \<sigma>\<^sub>0 At_ax_panic \<sigma>\<^sub>0"
| panic_returned:
    "abort_reaches R \<sigma>\<^sub>0 At_ax_panic \<sigma> \<Longrightarrow> ax_panic R \<sigma> = Some \<sigma>' \<Longrightarrow>
     abort_reaches R \<sigma>\<^sub>0 At_builtin_unreachable \<sigma>'"

code_pred abort_reaches .

subsection \<open>Sequences of calls\<close>

text \<open>\<^verbatim>\<open>srand(S); rand()\<close> through the shim.\<close>

definition srand_then_rand :: "'rt runtime \<Rightarrow> c_unsigned \<Rightarrow> (c_int, 'rt) stmt" where
  "srand_then_rand R S = then_stmt (srand R S) (\<lambda>_. rand R)"

text \<open>\<^verbatim>\<open>ax_srand(S); ax_rand_u32()\<close>: the runtime called directly, as the spec words it.\<close>

definition ax_srand_then_ax_rand_u32 :: "'rt runtime \<Rightarrow> uint32_t \<Rightarrow> (uint32_t, 'rt) stmt" where
  "ax_srand_then_ax_rand_u32 R S = then_stmt (call_ax_srand R S) (\<lambda>_. call_ax_rand_u32 R)"

text \<open>Two calls of \<open>rand\<close> in a row, both results kept.\<close>

definition rand_twice :: "'rt runtime \<Rightarrow> (c_int \<times> c_int, 'rt) stmt" where
  "rand_twice R = then_stmt (rand R) (\<lambda>a. then_stmt (rand R) (\<lambda>b. return_stmt (a, b)))"

subsection \<open>A runtime that logs its calls\<close>

text \<open>
  To count the calls the shim makes, any runtime is wrapped so that each entry point
  appends a record of the call to a log kept beside the runtime's state.
\<close>

datatype ax_call = Called_ax_srand uint32_t | Called_ax_rand_u32 | Called_ax_panic

definition logged :: "'rt runtime \<Rightarrow> ('rt \<times> ax_call list) runtime" where
  "logged R =
     \<lparr>ax_srand = (\<lambda>seed (\<sigma>, log). (ax_srand R seed \<sigma>, log @ [Called_ax_srand seed])),
      ax_rand_u32 = (\<lambda>(\<sigma>, log).
         (case ax_rand_u32 R \<sigma> of (r, \<sigma>') \<Rightarrow> (r, (\<sigma>', log @ [Called_ax_rand_u32])))),
      ax_panic = (\<lambda>(\<sigma>, log).
         (case ax_panic R \<sigma> of
            None \<Rightarrow> None
          | Some \<sigma>' \<Rightarrow> Some (\<sigma>', log @ [Called_ax_panic])))\<rparr>"

subsection \<open>A runtime inside a larger process state\<close>

text \<open>
  The process state may hold more than the runtime's own state: the caller's data, and
  whatever a libc component could keep for itself. \<open>in_process R\<close> is the runtime \<open>R\<close>
  acting on the first component of such a state and leaving the rest alone.
\<close>

definition in_process :: "'rt runtime \<Rightarrow> ('rt \<times> 'rest) runtime" where
  "in_process R =
     \<lparr>ax_srand = (\<lambda>seed (\<rho>, rest). (ax_srand R seed \<rho>, rest)),
      ax_rand_u32 = (\<lambda>(\<rho>, rest).
         (case ax_rand_u32 R \<rho> of (r, \<rho>') \<Rightarrow> (r, (\<rho>', rest)))),
      ax_panic = (\<lambda>(\<rho>, rest).
         (case ax_panic R \<rho> of None \<Rightarrow> None | Some \<rho>' \<Rightarrow> Some (\<rho>', rest)))\<rparr>"

subsection \<open>Sample runtimes\<close>

text \<open>
  Two small runtimes to run the shim on. The state of \<open>counter_runtime\<close> is one 32-bit
  word: seeding stores the seed, generating returns the word and adds one, and the
  panic entry never returns. \<open>returning_panic_runtime\<close> differs in the panic entry
  only, which returns: a runtime that breaks its contract.
\<close>

definition counter_runtime :: "uint32_t runtime" where
  "counter_runtime =
     \<lparr>ax_srand = (\<lambda>seed \<sigma>. seed), ax_rand_u32 = (\<lambda>\<sigma>. (\<sigma>, \<sigma> + 1)), ax_panic = (\<lambda>\<sigma>. None)\<rparr>"

definition returning_panic_runtime :: "uint32_t runtime" where
  "returning_panic_runtime = counter_runtime\<lparr>ax_panic := (\<lambda>\<sigma>. Some \<sigma>)\<rparr>"

section \<open>What each entry point computes\<close>

lemma unsigned_to_uint32_id: "unsigned_to_uint32 s = s"
  by (simp add: unsigned_to_uint32_def)

lemma uint32_to_int_id: "uint32_to_int r = r"
  by (simp add: uint32_to_int_def uint32_val_def)

lemma srand_eq: "srand R s \<sigma> = Returns () (ax_srand R s \<sigma>)"
  by (simp add: srand_def call_ax_srand_def unsigned_to_uint32_id)

lemma rand_eq: "rand R \<sigma> = Returns (fst (ax_rand_u32 R \<sigma>)) (snd (ax_rand_u32 R \<sigma>))"
  by (simp add: rand_def then_stmt_def call_ax_rand_u32_def return_stmt_def
      uint32_to_int_id split: prod.split)

lemma abort_eq:
  "abort R \<sigma> = (case ax_panic R \<sigma> of None \<Rightarrow> Diverges | Some \<sigma>' \<Rightarrow> Undefined)"
  by (simp add: abort_def then_stmt_def call_ax_panic_def builtin_unreachable_def
      split: option.split)

lemma abort_no_normal_return: "\<not> returns_normally (abort R \<sigma>)"
  by (simp add: abort_eq split: option.split)

lemma abort_when_panic_returns: "ax_panic R \<sigma> = Some \<sigma>' \<Longrightarrow> abort R \<sigma> = Undefined"
  by (simp add: abort_eq)

lemma abort_returning_panic_runtime: "abort returning_panic_runtime 5 = Undefined"
  by (simp add: abort_eq returning_panic_runtime_def counter_runtime_def)

text \<open>The two views of \<open>abort\<close> agree: the marker is reached exactly when the outcome is
  undefined behaviour.\<close>

lemma abort_reaches_entry_state:
  "abort_reaches R \<sigma>\<^sub>0 At_ax_panic \<sigma> \<Longrightarrow> \<sigma> = \<sigma>\<^sub>0"
  by (auto elim: abort_reaches.cases)

lemma abort_reaches_marker_iff:
  "(\<exists>\<sigma>'. abort_reaches R \<sigma> At_builtin_unreachable \<sigma>') = (abort R \<sigma> = Undefined)"
proof
  assume "\<exists>\<sigma>'. abort_reaches R \<sigma> At_builtin_unreachable \<sigma>'"
  then obtain \<sigma>' \<sigma>\<^sub>1 where "abort_reaches R \<sigma> At_ax_panic \<sigma>\<^sub>1" and "ax_panic R \<sigma>\<^sub>1 = Some \<sigma>'"
    by (auto elim: abort_reaches.cases)
  then have "ax_panic R \<sigma> = Some \<sigma>'"
    by (auto dest: abort_reaches_entry_state)
  then show "abort R \<sigma> = Undefined"
    by (rule abort_when_panic_returns)
next
  assume "abort R \<sigma> = Undefined"
  then obtain \<sigma>' where "ax_panic R \<sigma> = Some \<sigma>'"
    by (auto simp: abort_eq split: option.splits)
  then have "abort_reaches R \<sigma> At_builtin_unreachable \<sigma>'"
    by (rule abort_reaches.panic_returned [OF abort_reaches.entry])
  then show "\<exists>\<sigma>'. abort_reaches R \<sigma> At_builtin_unreachable \<sigma>'" ..
qed

subsection \<open>Reading a 32-bit word as a signed integer\<close>

lemma sint32_formula:
  "sint (w :: 32 word) = (if uint w < 2 ^ 31 then uint w else uint w - 2 ^ 32)"
proof -
  have b: "0 \<le> uint w" "uint w < 2 ^ 32"
    using uint_lt2p [of w] by simp_all
  have "sint w = take_bit 32 (uint w + 2 ^ 31) - 2 ^ 31"
    by (simp add: sint_uint signed_take_bit_eq_take_bit_shift)
  also have "\<dots> = (uint w + 2 ^ 31) mod 2 ^ 32 - 2 ^ 31"
    by (simp add: take_bit_eq_mod)
  also have "\<dots> = (if uint w < 2 ^ 31 then uint w else uint w - 2 ^ 32)"
  proof (cases "uint w < 2 ^ 31")
    case True
    with b have "(uint w + 2 ^ 31) mod 2 ^ 32 = uint w + 2 ^ 31"
      by simp
    with True show ?thesis by simp
  next
    case False
    with b have "(uint w + 2 ^ 31) mod 2 ^ 32 = uint w + 2 ^ 31 - 2 ^ 32"
      by (simp add: mod_pos_geq)
    with False show ?thesis by simp
  qed
  finally show ?thesis .
qed

lemma int_val_formula:
  "int_val w = (if uint32_val w < 2 ^ 31 then uint32_val w else uint32_val w - 2 ^ 32)"
  by (simp only: int_val_def uint32_val_def sint32_formula)

lemma uint32_val_range: "0 \<le> uint32_val w \<and> uint32_val w < 2 ^ 32"
  using uint_lt2p [of w] by (simp add: uint32_val_def)

lemma logged_srand:
  "srand (logged R) s (\<sigma>, log) = Returns () (ax_srand R s \<sigma>, log @ [Called_ax_srand s])"
  by (simp add: srand_eq logged_def)

lemma logged_rand:
  "rand (logged R) (\<sigma>, log) =
     Returns (fst (ax_rand_u32 R \<sigma>)) (snd (ax_rand_u32 R \<sigma>), log @ [Called_ax_rand_u32])"
  by (simp add: rand_eq logged_def split: prod.split)

lemma rand_twice_eq:
  "rand_twice R \<sigma> =
     Returns (fst (ax_rand_u32 R \<sigma>), fst (ax_rand_u32 R (snd (ax_rand_u32 R \<sigma>))))
       (snd (ax_rand_u32 R (snd (ax_rand_u32 R \<sigma>))))"
  by (simp add: rand_twice_def then_stmt_def rand_eq return_stmt_def)

lemma srand_then_rand_eq:
  "srand_then_rand R S \<sigma>
     = Returns (fst (ax_rand_u32 R (ax_srand R S \<sigma>))) (snd (ax_rand_u32 R (ax_srand R S \<sigma>)))"
  by (simp add: srand_then_rand_def then_stmt_def srand_eq rand_eq)

lemma ax_srand_then_ax_rand_u32_eq:
  "ax_srand_then_ax_rand_u32 R S \<sigma>
     = Returns (fst (ax_rand_u32 R (ax_srand R S \<sigma>))) (snd (ax_rand_u32 R (ax_srand R S \<sigma>)))"
  by (simp add: ax_srand_then_ax_rand_u32_def then_stmt_def call_ax_srand_def
      call_ax_rand_u32_def split: prod.split)

section \<open>Properties of the shim\<close>

text \<open>
  C1, as the spec states it: the value \<open>rand\<close> returns equals the unsigned 32-bit value
  that \<open>ax_rand_u32\<close> produced, with no overflow. It fails where that value does not fit
  an \<^verbatim>\<open>int\<close>: when the runtime produces \<open>2 ^ 31\<close>, \<open>rand\<close> returns \<open>- (2 ^ 31)\<close>.
\<close>

theorem rand_value_counterexample:
  "uint32_val (fst (ax_rand_u32 counter_runtime 0x80000000)) = 2147483648 \<and>
   map_option int_val (returned_value (rand counter_runtime 0x80000000)) = Some (- 2147483648) \<and>
   map_option int_val (returned_value (rand counter_runtime 0x80000000))
     \<noteq> Some (uint32_val (fst (ax_rand_u32 counter_runtime 0x80000000)))"
  by (simp add: rand_eq counter_runtime_def int_val_def uint32_val_def)

text \<open>
  C1, amended: \<open>rand\<close> always returns, and it returns the 32-bit word that \<open>ax_rand_u32\<close>
  produced with every bit unchanged (nothing is truncated, and converting the result
  back to \<^verbatim>\<open>uint32_t\<close> gives the runtime's value). Read as the \<^verbatim>\<open>int\<close> it is declared to
  be, the result equals the runtime's unsigned value exactly when that value is below
  \<open>2 ^ 31\<close>.
\<close>

theorem rand_returns_runtime_word:
  "returned_value (rand R \<sigma>) = Some (fst (ax_rand_u32 R \<sigma>)) \<and>
   map_option uint32_val (returned_value (rand R \<sigma>)) = Some (uint32_val (fst (ax_rand_u32 R \<sigma>))) \<and>
   (map_option int_val (returned_value (rand R \<sigma>)) = Some (uint32_val (fst (ax_rand_u32 R \<sigma>))))
     = (uint32_val (fst (ax_rand_u32 R \<sigma>)) < 2 ^ 31)"
  by (simp add: rand_eq int_val_formula)

text \<open>
  C2, as the spec states it: \<^verbatim>\<open>srand(S); rand()\<close> yields the same result as
  \<^verbatim>\<open>ax_srand(S); ax_rand_u32()\<close>. It fails where the runtime's value does not fit an
  \<^verbatim>\<open>int\<close>: on \<open>counter_runtime\<close> with the seed \<open>2 ^ 31\<close> the direct calls yield
  \<open>2 ^ 31\<close>, and the calls through the shim yield \<open>- (2 ^ 31)\<close>.
\<close>

theorem srand_rand_pass_through_counterexample:
  "uint32_val (fst (ax_rand_u32 counter_runtime (ax_srand counter_runtime 0x80000000 5)))
     = 2147483648 \<and>
   map_option uint32_val (returned_value (ax_srand_then_ax_rand_u32 counter_runtime 0x80000000 5))
     = Some 2147483648 \<and>
   map_option int_val (returned_value (srand_then_rand counter_runtime 0x80000000 5))
     = Some (- 2147483648) \<and>
   map_option int_val (returned_value (srand_then_rand counter_runtime 0x80000000 5))
     \<noteq> map_option uint32_val
         (returned_value (ax_srand_then_ax_rand_u32 counter_runtime 0x80000000 5))"
  by (simp add: srand_then_rand_eq ax_srand_then_ax_rand_u32_eq counter_runtime_def
      int_val_def uint32_val_def)

text \<open>
  C2, amended: for every seed \<open>S\<close>, every runtime and every state, \<^verbatim>\<open>srand(S); rand()\<close>
  returns normally, leaves the state that \<open>ax_rand_u32\<close> leaves when called in the state
  \<open>ax_srand\<close> made from \<open>S\<close>, and returns the 32-bit word that this call of \<open>ax_rand_u32\<close>
  produced, every bit unchanged. Read as the \<^verbatim>\<open>int\<close> that \<open>rand\<close> is declared to return,
  the result is the runtime's unsigned value below \<open>2 ^ 31\<close> and that value less \<open>2 ^ 32\<close>
  from \<open>2 ^ 31\<close> on, so the two numbers are equal exactly when the runtime's value is
  below \<open>2 ^ 31\<close>.
\<close>

theorem srand_rand_pass_through_word:
  "srand_then_rand R S \<sigma>
     = Returns (fst (ax_rand_u32 R (ax_srand R S \<sigma>))) (snd (ax_rand_u32 R (ax_srand R S \<sigma>))) \<and>
   map_option int_val (returned_value (srand_then_rand R S \<sigma>))
     = Some (if uint32_val (fst (ax_rand_u32 R (ax_srand R S \<sigma>))) < 2 ^ 31
             then uint32_val (fst (ax_rand_u32 R (ax_srand R S \<sigma>)))
             else uint32_val (fst (ax_rand_u32 R (ax_srand R S \<sigma>))) - 2 ^ 32) \<and>
   (map_option int_val (returned_value (srand_then_rand R S \<sigma>))
      = Some (uint32_val (fst (ax_rand_u32 R (ax_srand R S \<sigma>)))))
     = (uint32_val (fst (ax_rand_u32 R (ax_srand R S \<sigma>))) < 2 ^ 31)"
proof -
  have outcome: "srand_then_rand R S \<sigma>
     = Returns (fst (ax_rand_u32 R (ax_srand R S \<sigma>))) (snd (ax_rand_u32 R (ax_srand R S \<sigma>)))"
    by (rule srand_then_rand_eq)
  have reading: "int_val (fst (ax_rand_u32 R (ax_srand R S \<sigma>)))
     = (if uint32_val (fst (ax_rand_u32 R (ax_srand R S \<sigma>))) < 2 ^ 31
        then uint32_val (fst (ax_rand_u32 R (ax_srand R S \<sigma>)))
        else uint32_val (fst (ax_rand_u32 R (ax_srand R S \<sigma>))) - 2 ^ 32)"
    by (rule int_val_formula)
  from outcome reading show ?thesis
    by simp
qed

text \<open>
  C3: when \<open>ax_panic\<close> does not return, \<open>abort\<close> does not return either: the execution
  diverges, it is no normal return, and it does not go on to the code after the call.
\<close>

theorem abort_never_returns:
  "ax_panic R \<sigma> = None \<Longrightarrow>
   abort R \<sigma> = Diverges \<and> \<not> returns_normally (abort R \<sigma>) \<and> final_state (abort R \<sigma>) = None"
  by (simp add: abort_eq)

theorem abort_never_returns_witness:
  "ax_panic counter_runtime 5 = None \<and>
   abort counter_runtime 5 = Diverges \<and> \<not> returns_normally (abort counter_runtime 5) \<and>
   final_state (abort counter_runtime 5) = None"
proof -
  have h: "ax_panic counter_runtime 5 = None"
    by (simp add: counter_runtime_def)
  from abort_never_returns [OF h] h show ?thesis by simp
qed

text \<open>
  C4: \<open>srand\<close> hands its argument to \<open>ax_srand\<close> as it is and returns no value: its
  outcome is that of the call \<^verbatim>\<open>ax_srand(s)\<close>, and the seed the runtime logs is \<open>s\<close>.
\<close>

theorem srand_forwards_seed:
  "srand R s \<sigma> = call_ax_srand R s \<sigma> \<and>
   srand R s \<sigma> = Returns () (ax_srand R s \<sigma>) \<and>
   map_option snd (final_state (srand (logged R) s (\<sigma>, log))) = Some (log @ [Called_ax_srand s])"
proof -
  have forwarded: "srand R s \<sigma> = call_ax_srand R s \<sigma>"
    by (simp add: srand_def unsigned_to_uint32_id)
  have seed_logged:
    "map_option snd (final_state (srand (logged R) s (\<sigma>, log))) = Some (log @ [Called_ax_srand s])"
    by (simp only: logged_srand final_state.simps option.map snd_conv)
  from forwarded seed_logged show ?thesis
    by (simp only: srand_eq simp_thms)
qed

text \<open>
  C5: \<open>srand\<close> and \<open>rand\<close> cannot fail: for every runtime, argument and state both return
  normally, \<open>srand\<close> with no value and \<open>rand\<close> with a result.
\<close>

theorem srand_rand_cannot_fail:
  "returns_normally (srand R s \<sigma>) \<and> returned_value (srand R s \<sigma>) = Some () \<and>
   returns_normally (rand R \<sigma>) \<and> (\<exists>v. returned_value (rand R \<sigma>) = Some v)"
  by (simp add: srand_eq rand_eq)

text \<open>
  C6: when \<open>ax_panic\<close> does not return, no execution of \<open>abort\<close> arrives at the program
  point of \<^verbatim>\<open>__builtin_unreachable()\<close>.
\<close>

theorem unreachable_marker_valid:
  "ax_panic R \<sigma>\<^sub>0 = None \<Longrightarrow> \<not> abort_reaches R \<sigma>\<^sub>0 At_builtin_unreachable \<sigma>"
proof
  assume none: "ax_panic R \<sigma>\<^sub>0 = None"
    and "abort_reaches R \<sigma>\<^sub>0 At_builtin_unreachable \<sigma>"
  then obtain \<sigma>\<^sub>1 where at: "abort_reaches R \<sigma>\<^sub>0 At_ax_panic \<sigma>\<^sub>1"
    and ret: "ax_panic R \<sigma>\<^sub>1 = Some \<sigma>"
    by (auto elim: abort_reaches.cases)
  from at have "\<sigma>\<^sub>1 = \<sigma>\<^sub>0"
    by (rule abort_reaches_entry_state)
  with none ret show False by simp
qed

theorem unreachable_marker_valid_witness:
  "ax_panic counter_runtime 5 = None \<and>
   \<not> abort_reaches counter_runtime 5 At_builtin_unreachable 5"
proof -
  have h: "ax_panic counter_runtime 5 = None"
    by (simp add: counter_runtime_def)
  from unreachable_marker_valid [OF h, of 5] h show ?thesis by simp
qed

text \<open>
  C7: the shim has no state of its own and adds no state change: the state after
  \<open>srand\<close> is the one \<open>ax_srand\<close> produced, the state after \<open>rand\<close> is the one \<open>ax_rand_u32\<close>
  produced, and every part \<open>owned\<close> of the process state that the two runtime entries
  leave unchanged is unchanged by \<open>srand\<close> and by \<open>rand\<close>.
\<close>

theorem shim_owns_no_state:
  assumes "\<And>seed \<tau>. owned (ax_srand R seed \<tau>) = owned \<tau>"
    and "\<And>\<tau>. owned (snd (ax_rand_u32 R \<tau>)) = owned \<tau>"
  shows "final_state (srand R s \<sigma>) = Some (ax_srand R s \<sigma>) \<and>
         final_state (rand R \<sigma>) = Some (snd (ax_rand_u32 R \<sigma>)) \<and>
         map_option owned (final_state (srand R s \<sigma>)) = Some (owned \<sigma>) \<and>
         map_option owned (final_state (rand R \<sigma>)) = Some (owned \<sigma>)"
  using assms by (simp add: srand_eq rand_eq)

theorem shim_owns_no_state_witness:
  "(\<forall>seed \<tau>. snd (ax_srand (in_process counter_runtime) seed \<tau>) = snd (\<tau> :: uint32_t \<times> string)) \<and>
   (\<forall>\<tau>. snd (snd (ax_rand_u32 (in_process counter_runtime) \<tau>)) = snd (\<tau> :: uint32_t \<times> string)) \<and>
   final_state (srand (in_process counter_runtime) 9 (3, ''kept'')) = Some (9, ''kept'') \<and>
   final_state (rand (in_process counter_runtime) (3, ''kept'')) = Some (4, ''kept'') \<and>
   map_option snd (final_state (srand (in_process counter_runtime) 9 (3, ''kept''))) = Some ''kept'' \<and>
   map_option snd (final_state (rand (in_process counter_runtime) (3, ''kept''))) = Some ''kept''"
proof -
  have h1: "\<And>seed \<tau>. snd (ax_srand (in_process counter_runtime) seed \<tau>) = snd (\<tau> :: uint32_t \<times> string)"
    by (simp add: in_process_def split: prod.split)
  have h2: "\<And>\<tau>. snd (snd (ax_rand_u32 (in_process counter_runtime) \<tau>)) = snd (\<tau> :: uint32_t \<times> string)"
    by (simp add: in_process_def split: prod.split)
  from shim_owns_no_state [of snd "in_process counter_runtime" 9 "(3, ''kept'')", OF h1 h2] h1 h2
  show ?thesis
    by (simp add: in_process_def counter_runtime_def)
qed

text \<open>
  C8: one call of \<open>srand\<close> makes exactly one call of \<open>ax_srand\<close> and no other call of the
  runtime; one call of \<open>rand\<close> makes exactly one call of \<open>ax_rand_u32\<close>; and two calls of
  \<open>rand\<close> make two calls of \<open>ax_rand_u32\<close>, the second result being the one the runtime
  produces in the state the first call left, not a stored copy of the first.
\<close>

theorem one_runtime_call_per_shim_call:
  "map_option snd (final_state (srand (logged R) s (\<sigma>, []))) = Some [Called_ax_srand s] \<and>
   map_option snd (final_state (rand (logged R) (\<sigma>, []))) = Some [Called_ax_rand_u32] \<and>
   map_option snd (final_state (rand_twice (logged R) (\<sigma>, [])))
     = Some [Called_ax_rand_u32, Called_ax_rand_u32] \<and>
   returned_value (rand_twice (logged R) (\<sigma>, []))
     = Some (fst (ax_rand_u32 R \<sigma>), fst (ax_rand_u32 R (snd (ax_rand_u32 R \<sigma>))))"
proof -
  have one_srand:
    "map_option snd (final_state (srand (logged R) s (\<sigma>, []))) = Some [Called_ax_srand s]"
    by (simp add: logged_srand)
  have one_rand:
    "map_option snd (final_state (rand (logged R) (\<sigma>, []))) = Some [Called_ax_rand_u32]"
    by (simp add: logged_rand)
  have twice:
    "rand_twice (logged R) (\<sigma>, []) =
       Returns (fst (ax_rand_u32 R \<sigma>), fst (ax_rand_u32 R (snd (ax_rand_u32 R \<sigma>))))
         (snd (ax_rand_u32 R (snd (ax_rand_u32 R \<sigma>))), [Called_ax_rand_u32, Called_ax_rand_u32])"
    by (simp add: rand_twice_def then_stmt_def logged_rand return_stmt_def)
  from one_srand one_rand twice show ?thesis
    by simp
qed

text \<open>
  C9: for every value \<open>r\<close> that \<open>ax_rand_u32\<close> produces, the \<^verbatim>\<open>int\<close> that \<open>rand\<close> returns is
  \<open>r\<close> read as a 32-bit two's complement number: \<open>r\<close> itself below \<open>2 ^ 31\<close>, and
  \<open>r - 2 ^ 32\<close>, a negative number, from \<open>2 ^ 31\<close> on.
\<close>

theorem rand_signed_reinterpretation:
  "ax_rand_u32 R \<sigma> = (r, \<sigma>') \<Longrightarrow>
   map_option int_val (returned_value (rand R \<sigma>)) = Some (sint r) \<and>
   map_option int_val (returned_value (rand R \<sigma>))
     = Some (if uint32_val r < 2 ^ 31 then uint32_val r else uint32_val r - 2 ^ 32) \<and>
   (2 ^ 31 \<le> uint32_val r \<longrightarrow>
      (\<exists>v. map_option int_val (returned_value (rand R \<sigma>)) = Some v \<and> v < 0))"
proof -
  assume produced: "ax_rand_u32 R \<sigma> = (r, \<sigma>')"
  then have ret: "returned_value (rand R \<sigma>) = Some r"
    by (simp add: rand_eq)
  have formula: "int_val r = (if uint32_val r < 2 ^ 31 then uint32_val r else uint32_val r - 2 ^ 32)"
    by (rule int_val_formula)
  have negative: "2 ^ 31 \<le> uint32_val r \<longrightarrow> int_val r < 0"
    using uint32_val_range [of r] by (simp add: formula)
  from ret formula negative show ?thesis
    by (simp add: int_val_def)
qed

theorem rand_signed_reinterpretation_witness:
  "ax_rand_u32 counter_runtime 0xFFFFFFFF = (0xFFFFFFFF, 0) \<and>
   (2 :: int) ^ 31 \<le> uint32_val 0xFFFFFFFF \<and>
   map_option int_val (returned_value (rand counter_runtime 0xFFFFFFFF)) = Some (- 1)"
proof -
  have h: "ax_rand_u32 counter_runtime 0xFFFFFFFF = (0xFFFFFFFF, 0)"
    by (simp add: counter_runtime_def)
  have big: "(2 :: int) ^ 31 \<le> uint32_val 0xFFFFFFFF"
    by (simp add: uint32_val_def)
  from rand_signed_reinterpretation [OF h] h big show ?thesis
    by simp
qed

text \<open>
  C10: the shim adds no nondeterminism. In two executions, with any two runtimes and
  states: if \<open>ax_rand_u32\<close> returns the same value in both, \<open>rand\<close> returns the same value
  in both; if \<open>ax_rand_u32\<close> behaves the same in both (value and state), so does \<open>rand\<close>; and
  if \<open>ax_srand\<close> has the same effect on the same seed in both, so does \<open>srand\<close>.
\<close>

theorem shim_deterministic:
  "(fst (ax_rand_u32 R\<^sub>1 \<sigma>\<^sub>1) = fst (ax_rand_u32 R\<^sub>2 \<sigma>\<^sub>2) \<longrightarrow>
      returned_value (rand R\<^sub>1 \<sigma>\<^sub>1) = returned_value (rand R\<^sub>2 \<sigma>\<^sub>2)) \<and>
   (ax_rand_u32 R\<^sub>1 \<sigma>\<^sub>1 = ax_rand_u32 R\<^sub>2 \<sigma>\<^sub>2 \<longrightarrow> rand R\<^sub>1 \<sigma>\<^sub>1 = rand R\<^sub>2 \<sigma>\<^sub>2) \<and>
   (ax_srand R\<^sub>1 s \<sigma>\<^sub>1 = ax_srand R\<^sub>2 s \<sigma>\<^sub>2 \<longrightarrow> srand R\<^sub>1 s \<sigma>\<^sub>1 = srand R\<^sub>2 s \<sigma>\<^sub>2)"
  by (simp add: rand_eq srand_eq)

theorem shim_deterministic_witness:
  "fst (ax_rand_u32 counter_runtime 5) = fst (ax_rand_u32 returning_panic_runtime 5) \<and>
   ax_rand_u32 counter_runtime 5 = ax_rand_u32 returning_panic_runtime 5 \<and>
   ax_srand counter_runtime 7 5 = ax_srand returning_panic_runtime 7 5 \<and>
   returned_value (rand counter_runtime 5) = returned_value (rand returning_panic_runtime 5) \<and>
   rand counter_runtime 5 = rand returning_panic_runtime 5 \<and>
   srand counter_runtime 7 5 = srand returning_panic_runtime 7 5"
proof -
  have h: "ax_rand_u32 counter_runtime 5 = ax_rand_u32 returning_panic_runtime 5"
    "ax_srand counter_runtime 7 5 = ax_srand returning_panic_runtime 7 5"
    by (simp_all add: returning_panic_runtime_def counter_runtime_def)
  from shim_deterministic [of counter_runtime 5 returning_panic_runtime 5 7] h
  show ?thesis by simp
qed

end
